theory Spec2Isabelle
  imports Main "HOL-Library.Word" "HOL-Library.AList"
begin

section \<open>Python values\<close>

text \<open>
  A Python \<open>str\<close> is a sequence of Unicode code points, a \<open>bytes\<close> object a sequence
  of octets. String literals of the source are written \<open>py ''...''\<close>. A \<open>str\<close> may hold
  lone surrogates (U+D800..U+DFFF): file names that are not valid UTF-8 reach Python
  through the \<open>surrogateescape\<close> handler in exactly that form.
\<close>

type_synonym codepoint = nat
type_synonym pystr = "codepoint list"
type_synonym byte = "8 word"
type_synonym bytes = "byte list"

definition py :: "string \<Rightarrow> pystr" where
  "py s = map of_char s"

abbreviation LF :: codepoint where "LF \<equiv> 10"
abbreviation CR :: codepoint where "CR \<equiv> 13"
abbreviation SEP :: codepoint where "SEP \<equiv> 47"

datatype error =
    OSError | TypeError | KeyError | AttributeError | ValueError
  | UnicodeEncodeError | UnicodeDecodeError | StopIteration

subsection \<open>\<open>str.join\<close>, \<open>str.replace\<close>, \<open>str.strip\<close>, \<open>%d\<close>\<close>

fun str_join :: "pystr \<Rightarrow> pystr list \<Rightarrow> pystr" where
  "str_join sep [] = []"
| "str_join sep [x] = x"
| "str_join sep (x # y # ys) = x @ sep @ str_join sep (y # ys)"

text \<open>\<open>s.replace("\n", new)\<close>: every occurrence of the one-character pattern.\<close>

fun replace_LF :: "pystr \<Rightarrow> pystr \<Rightarrow> pystr" where
  "replace_LF new [] = []"
| "replace_LF new (c # cs) = (if c = LF then new @ replace_LF new cs else c # replace_LF new cs)"

text \<open>The code points for which \<open>str.isspace\<close> holds; \<open>str.strip()\<close> removes them at both ends.\<close>

definition isspace :: "codepoint \<Rightarrow> bool" where
  "isspace c = ((0x09 \<le> c \<and> c \<le> 0x0D) \<or> (0x1C \<le> c \<and> c \<le> 0x20) \<or> c = 0x85 \<or> c = 0xA0
     \<or> c = 0x1680 \<or> (0x2000 \<le> c \<and> c \<le> 0x200A) \<or> c = 0x2028 \<or> c = 0x2029
     \<or> c = 0x202F \<or> c = 0x205F \<or> c = 0x3000)"

definition strip :: "pystr \<Rightarrow> pystr" where
  "strip s = rev (dropWhile isspace (rev (dropWhile isspace s)))"

function dec_nat :: "nat \<Rightarrow> pystr" where
  "dec_nat n = (if n < 10 then [48 + n] else dec_nat (n div 10) @ [48 + n mod 10])"
  by pat_completeness auto
termination
  by (relation "measure id") auto

declare dec_nat.simps [simp del]

text \<open>\<open>"%d" % i\<close> for a Python \<open>int\<close> (unbounded).\<close>

definition fmt_d :: "int \<Rightarrow> pystr" where
  "fmt_d i = (if i < 0 then 45 # dec_nat (nat (- i)) else dec_nat (nat i))"

subsection \<open>\<open>str.encode("utf-8")\<close>\<close>

definition is_surrogate :: "codepoint \<Rightarrow> bool" where
  "is_surrogate c = (0xD800 \<le> c \<and> c \<le> 0xDFFF)"

definition utf8_char :: "codepoint \<Rightarrow> bytes" where
  "utf8_char c =
     (if c < 0x80 then [of_nat c]
      else if c < 0x800 then [of_nat (0xC0 + c div 64), of_nat (0x80 + c mod 64)]
      else if c < 0x10000 then
        [of_nat (0xE0 + c div 4096), of_nat (0x80 + c div 64 mod 64), of_nat (0x80 + c mod 64)]
      else
        [of_nat (0xF0 + c div 262144), of_nat (0x80 + c div 4096 mod 64),
         of_nat (0x80 + c div 64 mod 64), of_nat (0x80 + c mod 64)])"

text \<open>The strict codec: a surrogate code point raises \<open>UnicodeEncodeError\<close>.\<close>

fun encode_utf8 :: "pystr \<Rightarrow> error + bytes" where
  "encode_utf8 [] = Inr []"
| "encode_utf8 (c # cs) =
     (if is_surrogate c then Inl UnicodeEncodeError
      else case encode_utf8 cs of Inl e \<Rightarrow> Inl e | Inr bs \<Rightarrow> Inr (utf8_char c @ bs))"

section \<open>\<open>os.path\<close> on POSIX\<close>

text \<open>\<open>posixpath.dirname\<close>: the head up to the last separator, trailing separators
  removed unless the head consists of separators only.\<close>

definition rstrip_sep :: "pystr \<Rightarrow> pystr" where
  "rstrip_sep s = rev (dropWhile (\<lambda>c. c = SEP) (rev s))"

definition dirname :: "pystr \<Rightarrow> pystr" where
  "dirname p =
     (let head = rev (dropWhile (\<lambda>c. c \<noteq> SEP) (rev p))
      in if head \<noteq> [] \<and> \<not> list_all (\<lambda>c. c = SEP) head then rstrip_sep head else head)"

definition isabs :: "pystr \<Rightarrow> bool" where
  "isabs p = (case p of [] \<Rightarrow> False | c # _ \<Rightarrow> c = SEP)"

text \<open>\<open>posixpath.join(a, b)\<close> for two arguments.\<close>

definition join :: "pystr \<Rightarrow> pystr \<Rightarrow> pystr" where
  "join a b =
     (if isabs b then b
      else if a = [] \<or> last a = SEP then a @ b
      else a @ [SEP] @ b)"

text \<open>\<open>str.split("/")\<close>.\<close>

fun split_sep :: "pystr \<Rightarrow> pystr \<Rightarrow> pystr list" where
  "split_sep cur [] = [cur]"
| "split_sep cur (c # cs) = (if c = SEP then cur # split_sep [] cs else split_sep (cur @ [c]) cs)"

text \<open>\<open>posixpath.normpath\<close>: the loop over the components, then the result.\<close>

definition initial_slashes :: "pystr \<Rightarrow> nat" where
  "initial_slashes p =
     (if \<not> isabs p then 0
      else if take 2 p = [SEP, SEP] \<and> take 3 p \<noteq> [SEP, SEP, SEP] then 2
      else 1)"

fun norm_comps :: "nat \<Rightarrow> pystr list \<Rightarrow> pystr list \<Rightarrow> pystr list" where
  "norm_comps ini new_comps [] = new_comps"
| "norm_comps ini new_comps (seg # segs) =
     (if seg = [] \<or> seg = py ''.'' then norm_comps ini new_comps segs
      else if seg \<noteq> py ''..'' \<or> (ini = 0 \<and> new_comps = [])
              \<or> (new_comps \<noteq> [] \<and> last new_comps = py ''..'')
        then norm_comps ini (new_comps @ [seg]) segs
      else if new_comps \<noteq> [] then norm_comps ini (butlast new_comps) segs
      else norm_comps ini new_comps segs)"

definition normpath :: "pystr \<Rightarrow> pystr" where
  "normpath p =
     (if p = [] then py ''.''
      else
        let ini = initial_slashes p;
            path = replicate ini SEP @ str_join [SEP] (norm_comps ini [] (split_sep [] p))
        in if path = [] then py ''.'' else path)"

text \<open>\<open>posixpath.abspath\<close>; \<open>cwd\<close> is what \<open>os.getcwd()\<close> returns.\<close>

definition abspath :: "pystr \<Rightarrow> pystr \<Rightarrow> pystr" where
  "abspath cwd p = normpath (if isabs p then p else join cwd p)"

fun common_prefix :: "'a list \<Rightarrow> 'a list \<Rightarrow> 'a list" where
  "common_prefix (x # xs) (y # ys) = (if x = y then x # common_prefix xs ys else [])"
| "common_prefix _ _ = []"

text \<open>\<open>posixpath.relpath(path, start)\<close>: \<open>ValueError\<close> on the empty path; otherwise one
  \<open>..\<close> for every component of \<open>start\<close> beyond the common prefix, then the rest of
  \<open>path\<close>, joined.\<close>

definition relpath :: "pystr \<Rightarrow> pystr \<Rightarrow> pystr \<Rightarrow> error + pystr" where
  "relpath cwd path start =
     (if path = [] then Inl ValueError
      else
        let start_list = filter (\<lambda>x. x \<noteq> []) (split_sep [] (abspath cwd start));
            path_list = filter (\<lambda>x. x \<noteq> []) (split_sep [] (abspath cwd path));
            i = length (common_prefix start_list path_list);
            rel_list = replicate (length start_list - i) (py ''..'') @ drop i path_list
        in case rel_list of
             [] \<Rightarrow> Inr (py ''.'')
           | a # ps \<Rightarrow> Inr (foldl join a ps))"

section \<open>Text files\<close>

text \<open>
  A file opened in text mode is decoded as UTF-8 (the encoding the source names, or the
  one of a UTF-8 locale where it names none) by the strict codec: \<open>need\<close> continuation
  bytes are outstanding, \<open>acc\<close> holds the bits read so far and \<open>lo\<close> is the least code
  point the current length may encode. \<open>None\<close> is \<open>UnicodeDecodeError\<close>.
\<close>

fun decode_utf8_from :: "nat \<Rightarrow> nat \<Rightarrow> nat \<Rightarrow> bytes \<Rightarrow> pystr option" where
  "decode_utf8_from need acc lo [] = (if need = 0 then Some [] else None)"
| "decode_utf8_from need acc lo (b # bs) =
     (let n = unat b in
      if need = 0 then
        (if n < 0x80 then map_option ((#) n) (decode_utf8_from 0 0 0 bs)
         else if 0xC0 \<le> n \<and> n < 0xE0 then decode_utf8_from 1 (n - 0xC0) 0x80 bs
         else if 0xE0 \<le> n \<and> n < 0xF0 then decode_utf8_from 2 (n - 0xE0) 0x800 bs
         else if 0xF0 \<le> n \<and> n < 0xF8 then decode_utf8_from 3 (n - 0xF0) 0x10000 bs
         else None)
      else if 0x80 \<le> n \<and> n < 0xC0 then
        (let acc' = acc * 64 + (n - 0x80) in
         if need = 1 then
           (if lo \<le> acc' \<and> acc' \<le> 0x10FFFF \<and> \<not> is_surrogate acc'
            then map_option ((#) acc') (decode_utf8_from 0 0 0 bs) else None)
         else decode_utf8_from (need - 1) acc' lo bs)
      else None)"

definition decode_utf8 :: "bytes \<Rightarrow> pystr option" where
  "decode_utf8 bs = decode_utf8_from 0 0 0 bs"

text \<open>Universal newlines: on reading, \<open>\r\n\<close> and \<open>\r\<close> become \<open>\n\<close>.\<close>

fun universal_newlines :: "pystr \<Rightarrow> pystr" where
  "universal_newlines [] = []"
| "universal_newlines [c] = [if c = CR then LF else c]"
| "universal_newlines (c # d # cs) =
     (if c = CR \<and> d = LF then LF # universal_newlines cs
      else if c = CR then LF # universal_newlines (d # cs)
      else c # universal_newlines (d # cs))"

text \<open>The lines of a text, each with its terminating newline when it has one: what
  iterating a text file and \<open>readlines()\<close> yield.\<close>

fun lines_from :: "pystr \<Rightarrow> pystr \<Rightarrow> pystr list" where
  "lines_from cur [] = (if cur = [] then [] else [cur])"
| "lines_from cur (c # cs) =
     (if c = LF then (cur @ [c]) # lines_from [] cs else lines_from (cur @ [c]) cs)"

definition readlines :: "pystr \<Rightarrow> pystr list" where
  "readlines t = lines_from [] t"

section \<open>The file system\<close>

text \<open>
  Regular files with their contents, directories, and the paths on which the operating
  system refuses access. Paths are compared literally (no links, no normalisation).
  \<open>write_calls\<close> records every \<open>write\<close> performed on an open handle.
\<close>

record filesystem =
  files :: "pystr \<rightharpoonup> bytes"
  dirs :: "pystr set"
  denied :: "pystr set"
  write_calls :: "(pystr \<times> bytes) list"

definition exists :: "filesystem \<Rightarrow> pystr \<Rightarrow> bool" where
  "exists fs p = (files fs p \<noteq> None \<or> p \<in> dirs fs)"

definition isdir :: "filesystem \<Rightarrow> pystr \<Rightarrow> bool" where
  "isdir fs p = (p \<in> dirs fs)"

definition parent_is_dir :: "filesystem \<Rightarrow> pystr \<Rightarrow> bool" where
  "parent_is_dir fs p = (dirname p = [] \<or> dirname p \<in> dirs fs)"

text \<open>\<open>open(p, "w")\<close> and \<open>open(p, "wb")\<close>: create or truncate; \<open>OSError\<close> when the path is
  empty, refused, a directory, or its parent is no directory.\<close>

definition open_w :: "filesystem \<Rightarrow> pystr \<Rightarrow> error + filesystem" where
  "open_w fs p =
     (if p = [] \<or> p \<in> denied fs \<or> p \<in> dirs fs \<or> \<not> parent_is_dir fs p then Inl OSError
      else Inr (fs\<lparr>files := (files fs)(p \<mapsto> [])\<rparr>))"

text \<open>One \<open>write\<close> on the handle of \<open>p\<close>, followed by \<open>close\<close>.\<close>

definition handle_write :: "filesystem \<Rightarrow> pystr \<Rightarrow> bytes \<Rightarrow> filesystem" where
  "handle_write fs p data =
     fs\<lparr>files := (files fs)(p \<mapsto> (case files fs p of None \<Rightarrow> data | Some old \<Rightarrow> old @ data)),
        write_calls := write_calls fs @ [(p, data)]\<rparr>"

text \<open>\<open>open(p)\<close> for reading: the bytes of the file.\<close>

definition open_r :: "filesystem \<Rightarrow> pystr \<Rightarrow> error + bytes" where
  "open_r fs p =
     (if p \<in> denied fs \<or> p \<in> dirs fs then Inl OSError
      else case files fs p of None \<Rightarrow> Inl OSError | Some b \<Rightarrow> Inr b)"

text \<open>The text of a file opened for reading in text mode.\<close>

definition read_text :: "filesystem \<Rightarrow> pystr \<Rightarrow> error + pystr" where
  "read_text fs p =
     (case open_r fs p of
        Inl e \<Rightarrow> Inl e
      | Inr b \<Rightarrow>
          (case decode_utf8 b of
             None \<Rightarrow> Inl UnicodeDecodeError
           | Some t \<Rightarrow> Inr (universal_newlines t)))"

text \<open>The directories above a path, nearest first.\<close>

function ancestors :: "pystr \<Rightarrow> pystr list" where
  "ancestors p = (let d = dirname p in if length d < length p \<and> d \<noteq> [] then d # ancestors d else [])"
  by pat_completeness auto
termination
  by (relation "measure length") auto

declare ancestors.simps [simp del]

text \<open>\<open>os.makedirs(d)\<close>: creates \<open>d\<close> and every missing directory above it; \<open>OSError\<close>
  when \<open>d\<close> exists already, or a directory to create is a regular file or is refused.
  A failing call is taken to create nothing.\<close>

definition makedirs :: "filesystem \<Rightarrow> pystr \<Rightarrow> error + filesystem" where
  "makedirs fs d =
     (let new = filter (\<lambda>p. p \<notin> dirs fs) (d # ancestors d) in
      if d = [] \<or> exists fs d \<or> list_ex (\<lambda>p. files fs p \<noteq> None \<or> p \<in> denied fs) new
      then Inl OSError
      else Inr (fs\<lparr>dirs := dirs fs \<union> set new\<rparr>))"

section \<open>The plugin's surroundings\<close>

text \<open>
  What the plugin changes outside its own file: the file system, the configuration
  store (section \<open>PM.CONFIG_SECTION\<close>), the error dialogs run so far (title and
  description of each \<open>qltk.ErrorMessage\<close>) and the lines handed to \<open>print_e\<close> and
  \<open>print_d\<close>.
\<close>

record world =
  fs :: filesystem
  config :: "pystr \<rightharpoonup> pystr"
  dialogs :: "(pystr \<times> pystr) list"
  printed :: "pystr list"

text \<open>
  A song of the library, as far as \<open>__get_song_files\<close> looks at it: the values of
  \<open>song("~filename")\<close>, \<open>song("title")\<close>, \<open>song("~people")\<close>, \<open>song("~title~version")\<close>
  and \<open>song("~#length")\<close>, and whether \<open>"~uri" in song\<close>.
\<close>

record song =
  song_filename :: pystr
  song_title :: pystr
  song_people :: pystr
  song_title_version :: pystr
  song_length :: int
  song_has_uri :: bool

datatype query = Query pystr

text \<open>
  What the plugin only reads or calls: \<open>get_user_dir()\<close>, \<open>os.getcwd()\<close>, \<open>util.bold\<close>,
  \<open>Query.search\<close>, \<open>unicodedata.normalize("NFKD", _)\<close>, \<open>unicodedata.combining\<close>,
  \<open>strip_win32_incompat_from_path\<close>, whether \<open>os.name\<close> is \<open>"nt"\<close>, the playlists of
  \<open>app.library.playlists\<close> with their songs, and the songs of \<open>app.library\<close>.
  \<open>set_order\<close> is the order in which a Python \<open>set\<close> holding the given (distinct)
  elements is iterated; the language leaves it open.
\<close>

record env =
  user_dir :: pystr
  cwd :: pystr
  bold :: "pystr \<Rightarrow> pystr"
  search :: "query \<Rightarrow> song \<Rightarrow> bool"
  nfkd :: "pystr \<Rightarrow> pystr"
  combining :: "codepoint \<Rightarrow> nat"
  strip_win32_incompat_from_path :: "pystr \<Rightarrow> pystr"
  os_name_nt :: bool
  set_order :: "pystr list \<Rightarrow> pystr list"
  playlists :: "(pystr \<times> song list) list"
  library :: "song list"

text \<open>The class attributes.\<close>

definition CONFIG_PATH_KEY :: pystr where
  "CONFIG_PATH_KEY = py ''synchronize_to_playlist_path''"

definition CONFIG_REMOVE_ROOT_KEY :: pystr where
  "CONFIG_REMOVE_ROOT_KEY = py ''synchronize_to_playlist_remove_root''"

definition CONFIG_NEW_ROOT_KEY :: pystr where
  "CONFIG_NEW_ROOT_KEY = py ''synchronize_to_playlist_new_root''"

definition path_query :: "env \<Rightarrow> pystr" where
  "path_query e = join (join (user_dir e) (py ''lists'')) (py ''queries.saved'')"

definition path_sync_query :: "env \<Rightarrow> pystr" where
  "path_sync_query e = join (join (user_dir e) (py ''lists'')) (py ''queries.sync'')"

definition path_sync_playlists :: "env \<Rightarrow> pystr" where
  "path_sync_playlists e = join (join (user_dir e) (py ''lists'')) (py ''playlists.sync'')"

text \<open>\<open>config.get(PM.CONFIG_SECTION, key, default)\<close>.\<close>

definition config_get :: "world \<Rightarrow> pystr \<Rightarrow> pystr \<Rightarrow> pystr" where
  "config_get w key dflt = (case config w key of None \<Rightarrow> dflt | Some v \<Rightarrow> v)"

definition config_set :: "world \<Rightarrow> pystr \<Rightarrow> pystr \<Rightarrow> world" where
  "config_set w key v = w\<lparr>config := (config w)(key \<mapsto> v)\<rparr>"

text \<open>The fields of the plugin object that the handlers read: the saved searches and
  playlist names found when the panel was built, the check buttons switched on, the
  text of the three entries and the three \<open>tmp_\<close> attributes that follow them.\<close>

record plugin =
  self_queries :: "(pystr \<times> query) list"
  self_playlist_names :: "pystr list"
  active_queries :: "pystr list"
  active_playlists :: "pystr list"
  destination_entry :: pystr
  remove_root_entry :: pystr
  new_root_entry :: pystr
  tmp_export_path :: pystr
  tmp_remove_root :: pystr
  tmp_new_root :: pystr

text \<open>One entry of the list built by \<open>__get_song_files\<close>: the dictionary with the keys
  \<open>path\<close>, \<open>title\<close> and \<open>length\<close>.\<close>

record exported_file =
  f_path :: pystr
  f_title :: pystr
  f_length :: int

section \<open>Sync lists: \<open>write_sync_*\<close> and \<open>read_sync_*\<close>\<close>

text \<open>The two writers differ in the path only, and so do the two readers. A value
  \<open>Inr None\<close> of a reader is Python's \<open>None\<close>, returned when the function falls off
  its end after \<open>except OSError: pass\<close>.\<close>

definition write_sync ::
  "pystr \<Rightarrow> filesystem \<Rightarrow> pystr list \<Rightarrow> bool \<Rightarrow> (error + unit) \<times> filesystem" where
  "write_sync path fs0 names create =
     (if \<not> exists fs0 path \<and> length names = 0 then (Inr (), fs0)
      else
        case (if create \<and> \<not> isdir fs0 (dirname path) then makedirs fs0 (dirname path)
              else Inr fs0) of
          Inl e \<Rightarrow> (if e = OSError then (Inr (), fs0) else (Inl e, fs0))
        | Inr fs1 \<Rightarrow>
            (case open_w fs1 path of
               Inl e \<Rightarrow> (if e = OSError then (Inr (), fs1) else (Inl e, fs1))
             | Inr fs2 \<Rightarrow>
                 (case encode_utf8 (str_join (py ''/n'') names) of
                    Inl e \<Rightarrow> (if e = OSError then (Inr (), fs2) else (Inl e, fs2))
                  | Inr data \<Rightarrow> (Inr (), handle_write fs2 path data))))"

definition write_sync_playlists ::
  "env \<Rightarrow> world \<Rightarrow> pystr list \<Rightarrow> (error + unit) \<times> world" where
  "write_sync_playlists e w playlist_names =
     (case write_sync (path_sync_playlists e) (fs w) playlist_names True of
        (r, fs') \<Rightarrow> (r, w\<lparr>fs := fs'\<rparr>))"

definition write_sync_queries ::
  "env \<Rightarrow> world \<Rightarrow> pystr list \<Rightarrow> (error + unit) \<times> world" where
  "write_sync_queries e w query_names =
     (case write_sync (path_sync_query e) (fs w) query_names True of
        (r, fs') \<Rightarrow> (r, w\<lparr>fs := fs'\<rparr>))"

definition read_sync :: "pystr \<Rightarrow> filesystem \<Rightarrow> error + pystr list option" where
  "read_sync path fs0 =
     (if \<not> exists fs0 path then Inr (Some [])
      else
        case read_text fs0 path of
          Inl e \<Rightarrow> (if e = OSError then Inr None else Inl e)
        | Inr t \<Rightarrow> Inr (Some (readlines t)))"

definition read_sync_playlists :: "env \<Rightarrow> world \<Rightarrow> error + pystr list option" where
  "read_sync_playlists e w = read_sync (path_sync_playlists e) (fs w)"

definition read_sync_queries :: "env \<Rightarrow> world \<Rightarrow> error + pystr list option" where
  "read_sync_queries e w = read_sync (path_sync_query e) (fs w)"

section \<open>\<open>_get_queries\<close>\<close>

text \<open>The loop takes a line from the file and, in its body, the next one with \<open>next\<close>;
  a missing second line is \<open>StopIteration\<close>. The dictionary keeps insertion order and
  an assignment to a key already present replaces its value in place.\<close>

fun get_queries_loop ::
  "pystr list \<Rightarrow> (pystr \<times> query) list \<Rightarrow> error + (pystr \<times> query) list" where
  "get_queries_loop [] qs = Inr qs"
| "get_queries_loop [query_string] qs = Inl StopIteration"
| "get_queries_loop (query_string # name_line # rest) qs =
     get_queries_loop rest (AList.update (strip name_line) (Query (strip query_string)) qs)"

definition get_queries :: "env \<Rightarrow> world \<Rightarrow> error + (pystr \<times> query) list" where
  "get_queries e w =
     (if \<not> exists (fs w) (path_query e) then Inr []
      else
        case read_text (fs w) (path_query e) of
          Inl err \<Rightarrow> Inl err
        | Inr t \<Rightarrow> get_queries_loop (readlines t) [])"

section \<open>The toggle handlers\<close>

text \<open>\<open>list.append\<close> on what the reader returned, \<open>set(_).remove(name)\<close>, which returns
  \<open>None\<close>, and \<open>list(None)\<close>.\<close>

definition append_name :: "pystr list option \<Rightarrow> pystr \<Rightarrow> error + pystr list" where
  "append_name v name = (case v of None \<Rightarrow> Inl AttributeError | Some l \<Rightarrow> Inr (l @ [name]))"

definition set_remove :: "pystr list option \<Rightarrow> pystr \<Rightarrow> error + unit" where
  "set_remove v name =
     (case v of
        None \<Rightarrow> Inl TypeError
      | Some l \<Rightarrow> (if name \<in> set l then Inr () else Inl KeyError))"

definition list_of_None :: "unit \<Rightarrow> error + pystr list" where
  "list_of_None n = Inl TypeError"

definition toggle_save ::
  "(world \<Rightarrow> error + pystr list option) \<Rightarrow> (world \<Rightarrow> pystr list \<Rightarrow> (error + unit) \<times> world) \<Rightarrow>
   world \<Rightarrow> bool \<Rightarrow> pystr \<Rightarrow> (error + unit) \<times> world" where
  "toggle_save reader writer w active name =
     (case reader w of
        Inl err \<Rightarrow> (Inl err, w)
      | Inr saved \<Rightarrow>
          (case (if active then append_name saved name
                 else case set_remove saved name of
                        Inl err \<Rightarrow> Inl err
                      | Inr n \<Rightarrow> list_of_None n) of
             Inl err \<Rightarrow> (Inl err, w)
           | Inr saved' \<Rightarrow> writer w saved'))"

definition toggle_save_query :: "env \<Rightarrow> world \<Rightarrow> bool \<Rightarrow> pystr \<Rightarrow> (error + unit) \<times> world" where
  "toggle_save_query e w active name =
     toggle_save (read_sync_queries e) (write_sync_queries e) w active name"

definition toggle_save_playlist :: "env \<Rightarrow> world \<Rightarrow> bool \<Rightarrow> pystr \<Rightarrow> (error + unit) \<times> world" where
  "toggle_save_playlist e w active name =
     toggle_save (read_sync_playlists e) (write_sync_playlists e) w active name"

section \<open>\<open>__get_song_files\<close>\<close>

text \<open>The rewriting of the path of a local song (the body of the \<open>else\<close> branch up to
  \<open>f["path"] = path\<close>).\<close>

definition rewrite_path :: "pystr \<Rightarrow> pystr \<Rightarrow> pystr \<Rightarrow> pystr \<Rightarrow> error + pystr" where
  "rewrite_path wd path remove_root new_root =
     (if length remove_root > 0 then
        (case relpath wd path remove_root of
           Inl err \<Rightarrow> Inl err
         | Inr rel \<Rightarrow> (if length new_root > 0 then Inr (join new_root rel) else Inr rel))
      else Inr path)"

definition song_file :: "pystr \<Rightarrow> pystr \<Rightarrow> pystr \<Rightarrow> song \<Rightarrow> error + exported_file" where
  "song_file wd remove_root new_root s =
     (if song_has_uri s then
        Inr \<lparr>f_path = song_filename s, f_title = song_title s, f_length = - 1\<rparr>
      else
        case rewrite_path wd (song_filename s) remove_root new_root of
          Inl err \<Rightarrow> Inl err
        | Inr path \<Rightarrow>
            Inr \<lparr>f_path = path,
                 f_title = replace_LF (py '', '') (song_people s) @ py '' - '' @ song_title_version s,
                 f_length = song_length s\<rparr>)"

fun get_song_files :: "pystr \<Rightarrow> song list \<Rightarrow> pystr \<Rightarrow> pystr \<Rightarrow> error + exported_file list" where
  "get_song_files wd [] remove_root new_root = Inr []"
| "get_song_files wd (s # songs) remove_root new_root =
     (case song_file wd remove_root new_root s of
        Inl err \<Rightarrow> Inl err
      | Inr f \<Rightarrow>
          (case get_song_files wd songs remove_root new_root of
             Inl err \<Rightarrow> Inl err
           | Inr fls \<Rightarrow> Inr (f # fls)))"

section \<open>\<open>__m3u_export\<close>\<close>

definition file_error :: "env \<Rightarrow> world \<Rightarrow> pystr \<Rightarrow> world" where
  "file_error e w file_path =
     w\<lparr>dialogs := dialogs w @
         [(py ''Unable to export playlist'',
           py ''Writing to '' @ bold e file_path @ py '' failed.'')]\<rparr>"

text \<open>The text accumulated by the loop: two \<open>+=\<close> for every file.\<close>

definition m3u_text :: "exported_file list \<Rightarrow> pystr" where
  "m3u_text fls =
     foldl (\<lambda>text f.
         (text @ (py ''#EXTINF:'' @ fmt_d (f_length f) @ py '','' @ f_title f @ [LF]))
           @ (f_path f @ [LF]))
       (py ''#EXTM3U'' @ [LF]) fls"

definition m3u_export ::
  "env \<Rightarrow> world \<Rightarrow> pystr \<Rightarrow> exported_file list \<Rightarrow> (error + unit) \<times> world" where
  "m3u_export e w file_path fls =
     (case open_w (fs w) file_path of
        Inl err \<Rightarrow> (if err = OSError then (Inr (), file_error e w file_path) else (Inl err, w))
      | Inr fs1 \<Rightarrow>
          (case encode_utf8 (m3u_text fls) of
             Inl err \<Rightarrow> (Inl err, w\<lparr>fs := fs1\<rparr>)
           | Inr data \<Rightarrow> (Inr (), w\<lparr>fs := handle_write fs1 file_path data\<rparr>)))"

section \<open>Exporting playlists and saved searches\<close>

definition make_safe_name :: "env \<Rightarrow> pystr \<Rightarrow> pystr" where
  "make_safe_name e input_path =
     (let safe_filename = filter (\<lambda>c. combining e c = 0) (nfkd e input_path)
      in if \<not> os_name_nt e then strip_win32_incompat_from_path e safe_filename
         else safe_filename)"

definition export_songs :: "env \<Rightarrow> world \<Rightarrow> pystr \<Rightarrow> song list \<Rightarrow> (error + unit) \<times> world" where
  "export_songs e w name songs =
     (let file_path = join (config_get w CONFIG_PATH_KEY []) (make_safe_name e name @ py ''.m3u'')
      in case get_song_files (cwd e) songs
                (config_get w CONFIG_REMOVE_ROOT_KEY []) (config_get w CONFIG_NEW_ROOT_KEY []) of
           Inl err \<Rightarrow> (Inl err, w)
         | Inr fls \<Rightarrow> m3u_export e w file_path fls)"

definition save_playlist_to_m3u :: "env \<Rightarrow> world \<Rightarrow> pystr \<Rightarrow> (error + unit) \<times> world" where
  "save_playlist_to_m3u e w playlist_name =
     (case map_of (playlists e) playlist_name of
        None \<Rightarrow> (Inl KeyError, w)
      | Some songs \<Rightarrow> export_songs e w playlist_name songs)"

definition save_query_to_m3u :: "env \<Rightarrow> world \<Rightarrow> pystr \<Rightarrow> (error + unit) \<times> world" where
  "save_query_to_m3u e w query_name =
     (case get_queries e w of
        Inl err \<Rightarrow> (Inl err, w)
      | Inr qs \<Rightarrow>
          (case map_of qs query_name of
             None \<Rightarrow> (Inl KeyError, w)
           | Some q \<Rightarrow> export_songs e w query_name (filter (search e q) (library e))))"

text \<open>\<open>list(set(a).intersection(b))\<close>; iterating \<open>None\<close> is a \<open>TypeError\<close>.\<close>

definition intersection_list :: "env \<Rightarrow> pystr list \<Rightarrow> pystr list option \<Rightarrow> error + pystr list" where
  "intersection_list e a b =
     (case b of
        None \<Rightarrow> Inl TypeError
      | Some l \<Rightarrow> Inr (set_order e (remdups (filter (\<lambda>x. x \<in> set l) a))))"

text \<open>A \<open>for\<close> loop whose body may raise: the first exception ends it.\<close>

fun for_each ::
  "(world \<Rightarrow> 'a \<Rightarrow> (error + unit) \<times> world) \<Rightarrow> world \<Rightarrow> 'a list \<Rightarrow> (error + unit) \<times> world" where
  "for_each body w [] = (Inr (), w)"
| "for_each body w (x # xs) =
     (case body w x of
        (Inl err, w') \<Rightarrow> (Inl err, w')
      | (Inr u, w') \<Rightarrow> for_each body w' xs)"

definition export_all :: "env \<Rightarrow> world \<Rightarrow> (error + unit) \<times> world" where
  "export_all e w =
     (let playlist_names = map fst (playlists e) in
      case read_sync_playlists e w of
        Inl err \<Rightarrow> (Inl err, w)
      | Inr sync_playlists \<Rightarrow>
      (case intersection_list e playlist_names sync_playlists of
        Inl err \<Rightarrow> (Inl err, w)
      | Inr enabled_playlists \<Rightarrow>
      (case for_each (save_playlist_to_m3u e) w enabled_playlists of
        (Inl err, w1) \<Rightarrow> (Inl err, w1)
      | (Inr u, w1) \<Rightarrow>
      (case get_queries e w1 of
        Inl err \<Rightarrow> (Inl err, w1)
      | Inr qs \<Rightarrow>
      (case read_sync_queries e w1 of
        Inl err \<Rightarrow> (Inl err, w1)
      | Inr sync_queries \<Rightarrow>
      (case intersection_list e (map fst qs) sync_queries of
        Inl err \<Rightarrow> (Inl err, w1)
      | Inr enabled_queries \<Rightarrow> for_each (save_query_to_m3u e) w1 enabled_queries))))))"

section \<open>\<open>_run_export\<close>\<close>

definition show_export_error :: "world \<Rightarrow> pystr \<Rightarrow> pystr \<Rightarrow> world" where
  "show_export_error w title message =
     w\<lparr>dialogs := dialogs w @ [(title, message)], printed := printed w @ [title]\<rparr>"

definition check_valid_inputs :: "plugin \<Rightarrow> world \<Rightarrow> bool \<times> world" where
  "check_valid_inputs self w =
     (let destination_path = destination_entry self in
      if destination_path = [] then
        (False, show_export_error w (py ''No destination path provided'')
           (py ''Please specify the directory where songs should be exported.''))
      else if \<not> isabs destination_path then
        (False, show_export_error w (py ''Export path is not absolute'')
           (py ''Please select an absolute export path''))
      else (True, w))"

text \<open>The attribute \<open>self.running\<close>, which nothing reads, is left out.\<close>

definition run_export :: "env \<Rightarrow> plugin \<Rightarrow> world \<Rightarrow> (error + unit) \<times> world" where
  "run_export e self w =
     (let w1 = config_set w CONFIG_PATH_KEY (tmp_export_path self);
          w2 = config_set w1 CONFIG_REMOVE_ROOT_KEY (tmp_remove_root self);
          w3 = config_set w2 CONFIG_NEW_ROOT_KEY (tmp_new_root self)
      in case check_valid_inputs self w3 of
           (False, w4) \<Rightarrow> (Inr (), w4)
         | (True, w4) \<Rightarrow> export_all e (w4\<lparr>printed := printed w4 @ [py ''Running playlist export'']\<rparr>))"

section \<open>\<open>PluginPreferences\<close>\<close>

text \<open>
  Of the panel, what bears on the sync lists and on the entries: the saved searches are
  read, each sync list is read, cut down to the names that exist and written back, the
  check buttons of the names kept are switched on (before their handlers are
  connected), and the entries are filled from the configuration, the \<open>changed\<close>
  handlers copying each text into its \<open>tmp_\<close> attribute.
\<close>

definition PluginPreferences :: "env \<Rightarrow> world \<Rightarrow> (error + plugin) \<times> world" where
  "PluginPreferences e w =
     (let playlist_names = map fst (playlists e) in
      case get_queries e w of
        Inl err \<Rightarrow> (Inl err, w)
      | Inr qs \<Rightarrow>
      (case read_sync_queries e w of
        Inl err \<Rightarrow> (Inl err, w)
      | Inr loaded_queries \<Rightarrow>
      (case intersection_list e (map fst qs) loaded_queries of
        Inl err \<Rightarrow> (Inl err, w)
      | Inr sync_queries \<Rightarrow>
      (case write_sync_queries e w sync_queries of
        (Inl err, w1) \<Rightarrow> (Inl err, w1)
      | (Inr u, w1) \<Rightarrow>
      (case read_sync_playlists e w1 of
        Inl err \<Rightarrow> (Inl err, w1)
      | Inr loaded_playlists \<Rightarrow>
      (case intersection_list e playlist_names loaded_playlists of
        Inl err \<Rightarrow> (Inl err, w1)
      | Inr sync_playlists \<Rightarrow>
      (case write_sync_playlists e w1 sync_playlists of
        (Inl err, w2) \<Rightarrow> (Inl err, w2)
      | (Inr u', w2) \<Rightarrow>
          (Inr \<lparr>self_queries = qs,
                self_playlist_names = playlist_names,
                active_queries = filter (\<lambda>n. n \<in> set sync_queries) (map fst qs),
                active_playlists = filter (\<lambda>n. n \<in> set sync_playlists) playlist_names,
                destination_entry = config_get w2 CONFIG_PATH_KEY [],
                remove_root_entry = config_get w2 CONFIG_REMOVE_ROOT_KEY [],
                new_root_entry = config_get w2 CONFIG_NEW_ROOT_KEY [],
                tmp_export_path = config_get w2 CONFIG_PATH_KEY [],
                tmp_remove_root = config_get w2 CONFIG_REMOVE_ROOT_KEY [],
                tmp_new_root = config_get w2 CONFIG_NEW_ROOT_KEY []\<rparr>, w2))))))))"

section \<open>The notions of the specification\<close>

subsection \<open>The M3U document\<close>

text \<open>The UTF-8 bytes of a text without surrogates, the lines of the document (the
  header, then two lines for every entry) and the document: every line followed by a
  newline.\<close>

definition utf8 :: "pystr \<Rightarrow> bytes" where "utf8 s = concat (map utf8_char s)"

definition encodable :: "pystr \<Rightarrow> bool" where
  "encodable s = list_all (\<lambda>c. \<not> is_surrogate c) s"

definition m3u_lines :: "exported_file list \<Rightarrow> pystr list" where
  "m3u_lines fls =
     py ''#EXTM3U'' #
     concat (map (\<lambda>f. [py ''#EXTINF:'' @ fmt_d (f_length f) @ py '','' @ f_title f, f_path f]) fls)"

definition m3u_document :: "exported_file list \<Rightarrow> bytes" where
  "m3u_document fls = concat (map (\<lambda>l. utf8 l @ [0x0A]) (m3u_lines fls))"

subsection \<open>The relative path\<close>

text \<open>From the components of the two absolute, normalised paths: one \<open>..\<close> for every
  component of the start that is not shared, then the components of the path that are
  not shared, joined by \<open>/\<close>. A path component is not empty and holds no separator.\<close>

definition path_components :: "pystr \<Rightarrow> pystr \<Rightarrow> pystr list" where
  "path_components wd p = filter (\<lambda>x. x \<noteq> []) (split_sep [] (abspath wd p))"

definition relative_to :: "pystr \<Rightarrow> pystr \<Rightarrow> pystr \<Rightarrow> pystr" where
  "relative_to wd path start =
     (let s = path_components wd start;
          p = path_components wd path;
          n = length (common_prefix s p);
          segs = replicate (length s - n) (py ''..'') @ drop n p
      in if segs = [] then py ''.'' else str_join [SEP] segs)"

definition segment :: "pystr \<Rightarrow> bool" where
  "segment x = (x \<noteq> [] \<and> SEP \<notin> set x)"

subsection \<open>The pairs of a saved-search file\<close>

text \<open>The query/name line pairs of the file and the entry a pair stands for: the
  stripped name, with the query parsed from the stripped query line.\<close>

fun line_pairs :: "pystr list \<Rightarrow> (pystr \<times> pystr) list" where
  "line_pairs [] = []"
| "line_pairs [query_string] = []"
| "line_pairs (query_string # name_line # rest) = (query_string, name_line) # line_pairs rest"

definition entry_of :: "pystr \<times> pystr \<Rightarrow> pystr \<times> query" where
  "entry_of p = (strip (snd p), Query (strip (fst p)))"

subsection \<open>What an export may write\<close>

text \<open>The output file of a playlist or saved search; the names enabled for
  synchronisation that still exist, as \<open>_export_all\<close> finds them; and the relation
  between the worlds before and after a step that writes no file outside \<open>S\<close>, creates
  no directory, leaves the configuration alone and takes back no dialog.\<close>

definition m3u_path :: "env \<Rightarrow> world \<Rightarrow> pystr \<Rightarrow> pystr" where
  "m3u_path e w name = join (config_get w CONFIG_PATH_KEY []) (make_safe_name e name @ py ''.m3u'')"

definition enabled_playlists :: "env \<Rightarrow> world \<Rightarrow> pystr set" where
  "enabled_playlists e w =
     (case read_sync_playlists e w of
        Inr (Some loaded) \<Rightarrow> set (map fst (playlists e)) \<inter> set loaded
      | _ \<Rightarrow> {})"

definition enabled_queries :: "env \<Rightarrow> world \<Rightarrow> pystr set" where
  "enabled_queries e w =
     (case get_queries e w of
        Inr qs \<Rightarrow>
          (case read_sync_queries e w of
             Inr (Some loaded) \<Rightarrow> set (map fst qs) \<inter> set loaded
           | _ \<Rightarrow> {})
      | _ \<Rightarrow> {})"


text \<open>What exporting the songs of a name between two worlds comes to: the records of
  the songs are built with the configured roots, and either the output file of the name
  does not open and the failure dialog is shown, or the UTF-8 bytes of the M3U text of
  the records are handed to a \<open>write\<close> on the output file.\<close>

definition exported :: "env \<Rightarrow> pystr \<Rightarrow> song list \<Rightarrow> world \<Rightarrow> world \<Rightarrow> bool" where
  "exported e name songs w w' =
     (\<exists>fls. get_song_files (cwd e) songs (config_get w CONFIG_REMOVE_ROOT_KEY [])
                (config_get w CONFIG_NEW_ROOT_KEY []) = Inr fls
        \<and> (if isl (open_w (fs w) (m3u_path e w name))
            then \<exists>before after.
                   dialogs w' = dialogs w @ before
                     @ [(py ''Unable to export playlist'',
                         py ''Writing to '' @ bold e (m3u_path e w name) @ py '' failed.'')]
                     @ after
            else \<exists>data before after.
                   encode_utf8 (m3u_text fls) = Inr data
                   \<and> write_calls (fs w') = write_calls (fs w) @ before
                        @ [(m3u_path e w name, data)] @ after))"

section \<open>Sample surroundings\<close>

text \<open>A user directory under \<open>/home/u\<close>, an output directory \<open>/out\<close>, no playlists,
  sets iterated in the order given; a remote stream and a local song by A and B.\<close>

definition env0 :: env where
  "env0 = \<lparr>user_dir = py ''/home/u/.quodlibet'', cwd = py ''/'', bold = (\<lambda>s. s),
     search = (\<lambda>q s. True), nfkd = (\<lambda>s. s), combining = (\<lambda>c. 0),
     strip_win32_incompat_from_path = (\<lambda>s. s), os_name_nt = False,
     set_order = (\<lambda>xs. xs), playlists = [], library = []\<rparr>"

definition fs0 :: filesystem where
  "fs0 = \<lparr>files = Map.empty,
     dirs = {py ''/'', py ''/out'', py ''/home'', py ''/home/u'', py ''/home/u/.quodlibet''},
     denied = {}, write_calls = []\<rparr>"

definition world0 :: world where
  "world0 = \<lparr>fs = fs0, config = Map.empty, dialogs = [], printed = []\<rparr>"

definition stream0 :: song where
  "stream0 = \<lparr>song_filename = py ''http://radio.example/live'', song_title = py ''Radio'',
     song_people = py ''DJ'', song_title_version = py ''Radio'', song_length = 0,
     song_has_uri = True\<rparr>"

definition local0 :: song where
  "local0 = \<lparr>song_filename = py ''/music/rock/song.mp3'', song_title = py ''Y'',
     song_people = py ''A'' @ [LF] @ py ''B'', song_title_version = py ''Y - live'',
     song_length = 180, song_has_uri = False\<rparr>"

text \<open>The sample file system with the directory of the sync lists; a world whose
  \<open>queries.sync\<close> holds the one name A, the same with that file refused by the
  operating system, and a world whose \<open>playlists.sync\<close> holds the one name B.\<close>

definition fs_lists :: filesystem where
  "fs_lists = fs0\<lparr>dirs := insert (py ''/home/u/.quodlibet/lists'') (dirs fs0)\<rparr>"

definition world_A :: world where
  "world_A = world0\<lparr>fs := fs_lists\<lparr>files := [path_sync_query env0 \<mapsto> map of_char ''A'']\<rparr>\<rparr>"

definition world_denied :: world where
  "world_denied = world_A\<lparr>fs := (fs world_A)\<lparr>denied := {path_sync_query env0}\<rparr>\<rparr>"

definition world_B :: world where
  "world_B = world0\<lparr>fs := fs_lists\<lparr>files := [path_sync_playlists env0 \<mapsto> map of_char ''B'']\<rparr>\<rparr>"



text \<open>Two saved-search files: one with two pairs of the same name, one with a query
  line that no name line follows.\<close>

definition world_dup :: world where
  "world_dup = world0\<lparr>fs := fs_lists\<lparr>files :=
     [path_query env0 \<mapsto> map of_char ''q1\<newline>A\<newline>q2\<newline>A\<newline>'']\<rparr>\<rparr>"

definition world_odd :: world where
  "world_odd = world0\<lparr>fs := fs_lists\<lparr>files :=
     [path_query env0 \<mapsto> map of_char ''q1\<newline>A\<newline>q2\<newline>'']\<rparr>\<rparr>"

text \<open>Two states of the panel: the destination entry empty, with a root to remove typed
  in, and the destination entry holding the relative path \<open>./path\<close>.\<close>

definition plugin_no_dest :: plugin where
  "plugin_no_dest = \<lparr>self_queries = [], self_playlist_names = [], active_queries = [],
     active_playlists = [], destination_entry = [], remove_root_entry = py ''/music'',
     new_root_entry = [], tmp_export_path = [], tmp_remove_root = py ''/music'',
     tmp_new_root = []\<rparr>"

definition plugin_relative :: plugin where
  "plugin_relative = plugin_no_dest\<lparr>destination_entry := py ''./path'',
     tmp_export_path := py ''./path''\<rparr>"

section \<open>Properties of the M3U exporter\<close>

lemma encode_utf8_encodable: "encodable s \<Longrightarrow> encode_utf8 s = Inr (utf8 s)"
  by (induction s) (simp_all add: utf8_def encodable_def)

lemma encodable_append: "encodable (a @ b) = (encodable a \<and> encodable b)"
  by (simp add: encodable_def)

lemma utf8_append: "utf8 (a @ b) = utf8 a @ utf8 b"
  by (simp add: utf8_def)

lemma utf8_LF: "utf8 [LF] = [0x0A]"
  by (simp add: utf8_def utf8_char_def)

lemma dec_nat_digits: "c \<in> set (dec_nat n) \<Longrightarrow> 48 \<le> c \<and> c < 58"
proof (induction n rule: dec_nat.induct)
  case (1 n)
  show ?case
  proof (cases "n < 10")
    case True
    with 1(2) show ?thesis by (simp add: dec_nat.simps)
  next
    case False
    with 1(2) have "c \<in> set (dec_nat (n div 10)) \<or> c = 48 + n mod 10"
      by (subst (asm) dec_nat.simps) auto
    then show ?thesis
    proof
      assume "c \<in> set (dec_nat (n div 10))"
      with 1(1) False show ?thesis by simp
    next
      assume "c = 48 + n mod 10"
      then show ?thesis by simp
    qed
  qed
qed

lemma encodable_ascii: "\<forall>c \<in> set s. c < 128 \<Longrightarrow> encodable s"
  by (fastforce simp: encodable_def is_surrogate_def list_all_iff)

lemma encodable_Nil: "encodable []"
  by (simp add: encodable_def)

lemma encodable_Cons: "encodable (c # s) = (\<not> is_surrogate c \<and> encodable s)"
  by (simp add: encodable_def)

lemma encodable_fmt_d: "encodable (fmt_d i)"
  by (rule encodable_ascii) (auto simp: fmt_d_def dest: dec_nat_digits split: if_splits)

lemma encodable_py_literals:
  "encodable (py ''#EXTM3U'')" "encodable (py ''#EXTINF:'')" "encodable (py '','')" "encodable [LF]"
  by (simp_all add: encodable_def py_def is_surrogate_def)

lemma m3u_fold:
  "foldl (\<lambda>text f.
         (text @ (py ''#EXTINF:'' @ fmt_d (f_length f) @ py '','' @ f_title f @ [LF]))
           @ (f_path f @ [LF])) acc fls
   = acc @ concat (map (\<lambda>l. l @ [LF])
       (concat (map (\<lambda>f. [py ''#EXTINF:'' @ fmt_d (f_length f) @ py '','' @ f_title f, f_path f]) fls)))"
  by (induction fls arbitrary: acc) simp_all

lemma m3u_text_lines: "m3u_text fls = concat (map (\<lambda>l. l @ [LF]) (m3u_lines fls))"
  unfolding m3u_text_def m3u_lines_def by (subst m3u_fold) simp

lemma utf8_concat: "utf8 (concat ls) = concat (map utf8 ls)"
  by (induction ls) (simp_all add: utf8_append utf8_def)

lemma utf8_m3u_text: "utf8 (m3u_text fls) = m3u_document fls"
  by (simp add: m3u_text_lines m3u_document_def utf8_concat comp_def utf8_append utf8_LF)

lemma encodable_concat: "encodable (concat ls) = (\<forall>l \<in> set ls. encodable l)"
  by (induction ls) (simp_all add: encodable_append encodable_def)

lemma encodable_m3u_text:
  assumes "\<forall>f \<in> set fls. encodable (f_title f) \<and> encodable (f_path f)"
  shows "encodable (m3u_text fls)"
  using assms
  by (auto simp: m3u_text_lines encodable_concat m3u_lines_def encodable_append
      encodable_py_literals encodable_fmt_d encodable_Cons encodable_Nil is_surrogate_def)

lemma open_w_Inr:
  "open_w fsa p = Inr fsb \<Longrightarrow> fsb = fsa\<lparr>files := (files fsa)(p \<mapsto> [])\<rparr>"
  by (auto simp: open_w_def split: if_splits)

text \<open>
  Claim C1, as amended. When the output file opens and no title or path of the records
  holds a surrogate code point, \<open>__m3u_export\<close> returns normally; the file then holds
  exactly the UTF-8 bytes of the header line \<open>#EXTM3U\<close> and, for each record in
  order, of the lines \<open>#EXTINF:<duration>,<title>\<close> and \<open><path>\<close>, every line ended
  by a newline, and these bytes were handed over in one single \<open>write\<close> on the handle.
  For the record with path \<open>/a/b.mp3\<close>, title \<open>X - Y\<close> and duration 180 the document is
  \<open>#EXTM3U\n#EXTINF:180,X - Y\n/a/b.mp3\n\<close>.
\<close>

theorem m3u_export_document:
  assumes opened: "open_w (fs w) file_path = Inr fs1"
    and enc: "\<forall>f \<in> set fls. encodable (f_title f) \<and> encodable (f_path f)"
  shows "m3u_export e w file_path fls =
           (Inr (), w\<lparr>fs := (fs w)\<lparr>files := (files (fs w))(file_path \<mapsto> m3u_document fls),
                                  write_calls := write_calls (fs w) @ [(file_path, m3u_document fls)]\<rparr>\<rparr>)
         \<and> m3u_document [\<lparr>f_path = py ''/a/b.mp3'', f_title = py ''X - Y'', f_length = 180\<rparr>]
             = map of_char ''#EXTM3U\<newline>#EXTINF:180,X - Y\<newline>/a/b.mp3\<newline>''"
proof
  have "encode_utf8 (m3u_text fls) = Inr (m3u_document fls)"
    using encodable_m3u_text[OF enc] by (simp add: encode_utf8_encodable utf8_m3u_text)
  then show "m3u_export e w file_path fls =
           (Inr (), w\<lparr>fs := (fs w)\<lparr>files := (files (fs w))(file_path \<mapsto> m3u_document fls),
                                  write_calls := write_calls (fs w) @ [(file_path, m3u_document fls)]\<rparr>\<rparr>)"
    using open_w_Inr[OF opened] opened by (simp add: m3u_export_def handle_write_def)
next
  show "m3u_document [\<lparr>f_path = py ''/a/b.mp3'', f_title = py ''X - Y'', f_length = 180\<rparr>]
             = map of_char ''#EXTM3U\<newline>#EXTINF:180,X - Y\<newline>/a/b.mp3\<newline>''"
    by (simp add: m3u_document_def m3u_lines_def utf8_def utf8_char_def py_def fmt_d_def dec_nat.simps)
qed

text \<open>The theorem of C1 at the record of the claim, written to \<open>/out/x.m3u\<close>.\<close>

theorem m3u_export_document_witness:
  "open_w (fs world0) (py ''/out/x.m3u'')
     = Inr (fs0\<lparr>files := (files fs0)(py ''/out/x.m3u'' \<mapsto> [])\<rparr>)
   \<and> encodable (py ''X - Y'') \<and> encodable (py ''/a/b.mp3'')
   \<and> m3u_export env0 world0 (py ''/out/x.m3u'')
        [\<lparr>f_path = py ''/a/b.mp3'', f_title = py ''X - Y'', f_length = 180\<rparr>]
      = (Inr (), world0\<lparr>fs := (fs world0)
           \<lparr>files := (files (fs world0))(py ''/out/x.m3u'' \<mapsto>
               map of_char ''#EXTM3U\<newline>#EXTINF:180,X - Y\<newline>/a/b.mp3\<newline>''),
            write_calls := write_calls (fs world0) @
              [(py ''/out/x.m3u'',
                map of_char ''#EXTM3U\<newline>#EXTINF:180,X - Y\<newline>/a/b.mp3\<newline>'')]\<rparr>\<rparr>)"
proof -
  have h1: "open_w (fs world0) (py ''/out/x.m3u'')
     = Inr (fs0\<lparr>files := (files fs0)(py ''/out/x.m3u'' \<mapsto> [])\<rparr>)"
    by (simp add: open_w_def world0_def fs0_def parent_is_dir_def dirname_def rstrip_sep_def py_def)
  have h2: "\<forall>f \<in> set [\<lparr>f_path = py ''/a/b.mp3'', f_title = py ''X - Y'', f_length = 180\<rparr>].
         encodable (f_title f) \<and> encodable (f_path f)"
    by (simp add: encodable_def py_def is_surrogate_def)
  from m3u_export_document[OF h1 h2, of env0] h1 h2 show ?thesis
    by simp
qed

text \<open>
  Claim C1 as stated, for every sequence of records, fails: a path holding the lone
  surrogate U+DC80 (a file name with the byte 0x80, as \<open>surrogateescape\<close> hands it
  to Python) makes \<open>text.encode("utf-8")\<close> raise \<open>UnicodeEncodeError\<close> after the
  file was opened and truncated; no \<open>write\<close> takes place.
\<close>

theorem m3u_export_surrogate_counterexample:
  "open_w (fs world0) (py ''/out/x.m3u'')
     = Inr (fs0\<lparr>files := (files fs0)(py ''/out/x.m3u'' \<mapsto> [])\<rparr>)
   \<and> m3u_export env0 world0 (py ''/out/x.m3u'')
        [\<lparr>f_path = [0xDC80], f_title = py ''T'', f_length = 0\<rparr>]
      = (Inl UnicodeEncodeError,
         world0\<lparr>fs := fs0\<lparr>files := (files fs0)(py ''/out/x.m3u'' \<mapsto> [])\<rparr>\<rparr>)
   \<and> write_calls (fs (snd (m3u_export env0 world0 (py ''/out/x.m3u'')
        [\<lparr>f_path = [0xDC80], f_title = py ''T'', f_length = 0\<rparr>]))) = []"
proof -
  have h1: "open_w (fs world0) (py ''/out/x.m3u'')
     = Inr (fs0\<lparr>files := (files fs0)(py ''/out/x.m3u'' \<mapsto> [])\<rparr>)"
    by (simp add: open_w_def world0_def fs0_def parent_is_dir_def dirname_def rstrip_sep_def py_def)
  have h2: "encode_utf8 (m3u_text [\<lparr>f_path = [0xDC80], f_title = py ''T'', f_length = 0\<rparr>])
      = Inl UnicodeEncodeError"
    by (simp add: m3u_text_def py_def fmt_d_def dec_nat.simps is_surrogate_def)
  show ?thesis
    using h1 h2 by (simp add: m3u_export_def) (simp add: fs0_def)
qed

section \<open>Properties of the path rewriter and of \<open>__get_song_files\<close>\<close>

lemma split_sep_no_sep:
  "SEP \<notin> set cur \<Longrightarrow> \<forall>x \<in> set (split_sep cur cs). SEP \<notin> set x"
proof (induction cs arbitrary: cur)
  case Nil
  then show ?case by simp
next
  case (Cons c cs)
  show ?case
  proof (cases "c = SEP")
    case True
    then show ?thesis using Cons.IH[of "[]"] Cons.prems by simp
  next
    case False
    then show ?thesis using Cons.IH[of "cur @ [c]"] Cons.prems by simp
  qed
qed

lemma path_components_segment:
  "x \<in> set (path_components wd p) \<Longrightarrow> segment x"
  using split_sep_no_sep[of "[]" "abspath wd p"] by (auto simp: path_components_def segment_def)

lemma segment_last: "segment a \<Longrightarrow> a \<noteq> [] \<and> last a \<noteq> SEP"
  by (metis last_in_set segment_def)

lemma segment_dotdot: "segment (py ''..'')"
  by (simp add: segment_def py_def)

lemma join_segment: "a \<noteq> [] \<Longrightarrow> last a \<noteq> SEP \<Longrightarrow> segment b \<Longrightarrow> join a b = a @ [SEP] @ b"
  by (cases b) (auto simp: join_def isabs_def segment_def)

lemma str_join_cons_segment:
  "str_join [SEP] ((a @ SEP # b) # ps) = a @ SEP # str_join [SEP] (b # ps)"
  by (cases ps) simp_all

lemma foldl_join_segments:
  "a \<noteq> [] \<Longrightarrow> last a \<noteq> SEP \<Longrightarrow> \<forall>b \<in> set ps. segment b
     \<Longrightarrow> foldl join a ps = str_join [SEP] (a # ps)"
proof (induction ps arbitrary: a)
  case Nil
  then show ?case by simp
next
  case (Cons b ps)
  then have b: "segment b" by simp
  have j: "join a b = a @ [SEP] @ b" using Cons.prems b by (simp add: join_segment)
  have "last (a @ [SEP] @ b) \<noteq> SEP" using segment_last[OF b] by simp
  then have "foldl join (a @ [SEP] @ b) ps = str_join [SEP] ((a @ [SEP] @ b) # ps)"
    using Cons.prems by (intro Cons.IH) auto
  then show ?case using j by (simp add: str_join_cons_segment)
qed

lemma relpath_relative_to:
  assumes "path \<noteq> []"
  shows "relpath wd path start = Inr (relative_to wd path start)"
proof -
  define s where "s = path_components wd start"
  define p where "p = path_components wd path"
  define segs where "segs = replicate (length s - length (common_prefix s p)) (py ''..'')
      @ drop (length (common_prefix s p)) p"
  have seg: "\<forall>b \<in> set segs. segment b"
    using path_components_segment[of _ wd path]
    by (auto simp: segs_def p_def segment_dotdot dest!: in_set_dropD)
  have r: "relpath wd path start = (case segs of [] \<Rightarrow> Inr (py ''.'') | a # ps \<Rightarrow> Inr (foldl join a ps))"
    using assms by (simp add: relpath_def Let_def segs_def s_def p_def path_components_def)
  have t: "relative_to wd path start = (if segs = [] then py ''.'' else str_join [SEP] segs)"
    by (simp add: relative_to_def Let_def segs_def s_def p_def)
  show ?thesis
  proof (cases segs)
    case Nil
    then show ?thesis using r t by simp
  next
    case (Cons a ps)
    with seg have "segment a" "\<forall>b \<in> set ps. segment b" by simp_all
    then have "foldl join a ps = str_join [SEP] (a # ps)"
      using segment_last[of a] by (intro foldl_join_segments) simp_all
    then show ?thesis using r t Cons by simp
  qed
qed



lemma common_prefix_append: "common_prefix s (s @ r) = s"
  by (induction s) simp_all

lemma relative_to_nested:
  assumes "path_components wd path = path_components wd start @ rest" "rest \<noteq> []"
  shows "relative_to wd path start = str_join [SEP] rest"
  using assms by (simp add: relative_to_def Let_def common_prefix_append)




lemma rewrite_path_returns:
  assumes "path \<noteq> []"
  shows "\<exists>p. rewrite_path wd path remove_root new_root = Inr p"
  using relpath_relative_to[OF assms, of wd remove_root] by (simp add: rewrite_path_def)



lemma replace_LF_append: "replace_LF new (a @ b) = replace_LF new a @ replace_LF new b"
  by (induction a) simp_all

lemma replace_LF_none: "LF \<notin> set p \<Longrightarrow> replace_LF new p = p"
  by (induction p) simp_all

lemma replace_LF_join:
  "\<forall>p \<in> set ps. LF \<notin> set p \<Longrightarrow> replace_LF new (str_join [LF] ps) = str_join new ps"
  by (induction "[LF]" ps rule: str_join.induct)
     (simp_all add: replace_LF_append replace_LF_none)

text \<open>
  Claim C6, as amended. \<open>__get_song_files\<close> builds a record for every song that is a
  remote stream or has a non-empty file name. For a song that is no remote stream the
  duration is the song's length, the path is the rewritten file name, and the title is
  the performers joined by \<open>", "\<close>, then \<open>" - "\<close>, then the title with version
  (\<open>song("~people")\<close> being the performers joined by newlines). For a remote stream
  the title is the song's plain title, the duration \<open>-1\<close> and the path the file name.
\<close>

theorem song_file_title_duration:
  assumes "song_has_uri s \<or> song_filename s \<noteq> []"
  shows "\<exists>f. song_file wd remove_root new_root s = Inr f
     \<and> (if song_has_uri s
         then f_title f = song_title s \<and> f_length f = - 1 \<and> f_path f = song_filename s
         else f_length f = song_length s
            \<and> rewrite_path wd (song_filename s) remove_root new_root = Inr (f_path f)
            \<and> (\<forall>ps. song_people s = str_join [LF] ps \<and> (\<forall>p \<in> set ps. LF \<notin> set p)
                  \<longrightarrow> f_title f = str_join (py '', '') ps @ py '' - '' @ song_title_version s))"
proof (cases "song_has_uri s")
  case True
  then show ?thesis by (simp add: song_file_def)
next
  case False
  with assms have ne: "song_filename s \<noteq> []" by simp
  obtain p where p: "rewrite_path wd (song_filename s) remove_root new_root = Inr p"
    using rewrite_path_returns[OF ne] by blast
  show ?thesis using False p by (auto simp: song_file_def replace_LF_join)
qed

text \<open>The theorem of C6 at a local song with the performers A and B.\<close>

theorem song_file_title_duration_witness:
  "song_filename local0 \<noteq> []
   \<and> song_people local0 = str_join [LF] [py ''A'', py ''B'']
   \<and> (\<exists>f. song_file (py ''/'') (py ''/music'') (py ''/new'') local0 = Inr f
          \<and> f_length f = 180
          \<and> f_title f = py ''A, B - Y - live'')"
proof -
  have h: "song_has_uri local0 \<or> song_filename local0 \<noteq> []"
    by (simp add: local0_def py_def)
  have u: "\<not> song_has_uri local0" by (simp add: local0_def)
  have ppl: "song_people local0 = str_join [LF] [py ''A'', py ''B'']"
    by (simp add: local0_def)
  have nl: "\<forall>p \<in> set [py ''A'', py ''B'']. LF \<notin> set p"
    by (simp add: py_def)
  from song_file_title_duration[OF h, of "py ''/''" "py ''/music''" "py ''/new''"] u
  obtain f where f: "song_file (py ''/'') (py ''/music'') (py ''/new'') local0 = Inr f"
    "f_length f = song_length local0"
    "\<forall>ps. song_people local0 = str_join [LF] ps \<and> (\<forall>p \<in> set ps. LF \<notin> set p)
          \<longrightarrow> f_title f = str_join (py '', '') ps @ py '' - '' @ song_title_version local0"
    by auto
  from f(3) ppl nl have "f_title f = str_join (py '', '') [py ''A'', py ''B''] @ py '' - ''
      @ song_title_version local0" by blast
  then have "f_title f = py ''A, B - Y - live''" by (simp add: local0_def py_def)
  with f(1,2) ppl show ?thesis by (auto simp: local0_def py_def)
qed

text \<open>
  Claim C6 as stated, for every resolved song, fails at a remote stream: its title is
  \<open>song("title")\<close> alone, not the performers, \<open>" - "\<close> and the title with version.
\<close>

theorem song_file_stream_counterexample:
  "song_has_uri stream0
   \<and> song_people stream0 = str_join [LF] [py ''DJ'']
   \<and> song_file (py ''/'') [] [] stream0
       = Inr \<lparr>f_path = py ''http://radio.example/live'', f_title = py ''Radio'', f_length = - 1\<rparr>
   \<and> py ''Radio'' \<noteq> str_join (py '', '') [py ''DJ''] @ py '' - '' @ song_title_version stream0"
  by (simp add: stream0_def song_file_def py_def)

section \<open>Properties of the sync lists\<close>

lemmas path_eval = join_def isabs_def dirname_def rstrip_sep_def py_def

lemma path_sync_query_env0:
  "path_sync_query env0 = py ''/home/u/.quodlibet/lists/queries.sync''"
  by (simp add: path_sync_query_def path_eval env0_def)

lemma path_sync_playlists_env0:
  "path_sync_playlists env0 = py ''/home/u/.quodlibet/lists/playlists.sync''"
  by (simp add: path_sync_playlists_def path_eval env0_def)

lemma path_query_env0:
  "path_query env0 = py ''/home/u/.quodlibet/lists/queries.saved''"
  by (simp add: path_query_def path_eval env0_def)

lemma dirname_sync_query:
  "dirname (py ''/home/u/.quodlibet/lists/queries.sync'') = py ''/home/u/.quodlibet/lists''"
  by (simp add: path_eval)

lemma dirname_sync_playlists:
  "dirname (py ''/home/u/.quodlibet/lists/playlists.sync'') = py ''/home/u/.quodlibet/lists''"
  by (simp add: path_eval)

lemma ancestors_lists:
  "ancestors (py ''/home/u/.quodlibet/lists'')
     = [py ''/home/u/.quodlibet'', py ''/home/u'', py ''/home'', py ''/'']"
  by (simp add: ancestors.simps path_eval)

lemma makedirs_lists: "makedirs fs0 (py ''/home/u/.quodlibet/lists'') = Inr fs_lists"
  by (simp add: makedirs_def ancestors_lists exists_def fs_lists_def)
     (auto simp: fs0_def py_def)

lemma write_sync_steps:
  assumes "names \<noteq> [] \<or> exists fsa path"
    and "(if create \<and> \<not> isdir fsa (dirname path) then makedirs fsa (dirname path) else Inr fsa)
           = Inr fsb"
    and "open_w fsb path = Inr fsc"
    and "encode_utf8 (str_join (py ''/n'') names) = Inr data"
  shows "write_sync path fsa names create = (Inr (), handle_write fsc path data)"
  using assms by (auto simp: write_sync_def)

lemma read_sync_lines:
  assumes "files fsa p = Some b" "p \<notin> denied fsa" "p \<notin> dirs fsa" "decode_utf8 b = Some t"
  shows "read_sync p fsa = Inr (Some (readlines (universal_newlines t)))"
  using assms by (simp add: read_sync_def exists_def read_text_def open_r_def)

lemma encode_A_n_B: "encode_utf8 (str_join (py ''/n'') [py ''A'', py ''B'']) = Inr (map of_char ''A/nB'')"
  by (simp add: py_def is_surrogate_def utf8_char_def)

lemma decode_A_n_B: "decode_utf8 (map of_char ''A/nB'') = Some (py ''A/nB'')"
  by (simp add: decode_utf8_def py_def)

lemma lines_A_n_B: "readlines (universal_newlines (py ''A/nB'')) = [py ''A/nB'']"
  by (simp add: readlines_def py_def)

lemma open_w_fs_lists:
  "p = py ''/home/u/.quodlibet/lists/queries.sync'' \<or> p = py ''/home/u/.quodlibet/lists/playlists.sync''
   \<Longrightarrow> open_w fs_lists p = Inr (fs_lists\<lparr>files := [p \<mapsto> []]\<rparr>)"
  by (auto simp: open_w_def parent_is_dir_def dirname_sync_query dirname_sync_playlists
      fs_lists_def fs0_def) (simp_all add: py_def)

lemma write_sync_A_B:
  assumes "p = py ''/home/u/.quodlibet/lists/queries.sync''
         \<or> p = py ''/home/u/.quodlibet/lists/playlists.sync''"
  shows "write_sync p fs0 [py ''A'', py ''B''] True
     = (Inr (), fs_lists\<lparr>files := [p \<mapsto> map of_char ''A/nB''],
                         write_calls := [(p, map of_char ''A/nB'')]\<rparr>)"
proof -
  have d: "dirname p = py ''/home/u/.quodlibet/lists''"
    using assms dirname_sync_query dirname_sync_playlists by auto
  have nd: "\<not> isdir fs0 (py ''/home/u/.quodlibet/lists'')"
    by (simp add: isdir_def fs0_def py_def)
  have m: "(if True \<and> \<not> isdir fs0 (dirname p) then makedirs fs0 (dirname p) else Inr fs0)
           = Inr fs_lists"
    using d nd makedirs_lists by simp
  have "write_sync p fs0 [py ''A'', py ''B''] True
      = (Inr (), handle_write (fs_lists\<lparr>files := [p \<mapsto> []]\<rparr>) p (map of_char ''A/nB''))"
    by (rule write_sync_steps[OF _ m open_w_fs_lists[OF assms] encode_A_n_B]) simp
  also have "handle_write (fs_lists\<lparr>files := [p \<mapsto> []]\<rparr>) p (map of_char ''A/nB'')
      = fs_lists\<lparr>files := [p \<mapsto> map of_char ''A/nB''],
                         write_calls := [(p, map of_char ''A/nB'')]\<rparr>"
    by (simp add: handle_write_def fs_lists_def fs0_def)
  finally show ?thesis .
qed

lemma read_sync_A_B:
  assumes "files fsa p = Some (map of_char ''A/nB'')" "p \<notin> denied fsa" "p \<notin> dirs fsa"
  shows "read_sync p fsa = Inr (Some [py ''A/nB''])"
  using read_sync_lines[OF assms decode_A_n_B] lines_A_n_B by simp

text \<open>
  Claim C3 (saving a sync list and loading it again gives back, intersected with the
  saved names, the set of the saved names) is what the code aims at and misses. Saving
  the two names A and B writes the four characters \<open>A/nB\<close>, the separator being the
  literal \<open>"/n"\<close>; loading returns the single line \<open>A/nB\<close>, whose intersection with
  the saved names is empty.
\<close>

theorem sync_list_roundtrip_two_names:
  "fst (write_sync_queries env0 world0 [py ''A'', py ''B'']) = Inr ()
   \<and> files (fs (snd (write_sync_queries env0 world0 [py ''A'', py ''B''])))
        (path_sync_query env0) = Some (map of_char ''A/nB'')
   \<and> read_sync_queries env0 (snd (write_sync_queries env0 world0 [py ''A'', py ''B'']))
        = Inr (Some [py ''A/nB''])
   \<and> set [py ''A/nB''] \<inter> set [py ''A'', py ''B''] = {}
   \<and> set [py ''A'', py ''B''] \<noteq> {}"
proof -
  have w: "write_sync_queries env0 world0 [py ''A'', py ''B'']
      = (Inr (), world0\<lparr>fs := fs_lists\<lparr>files := [path_sync_query env0 \<mapsto> map of_char ''A/nB''],
           write_calls := [(path_sync_query env0, map of_char ''A/nB'')]\<rparr>\<rparr>)"
    by (simp add: write_sync_queries_def path_sync_query_env0 write_sync_A_B world0_def)
  have r: "read_sync_queries env0 (snd (write_sync_queries env0 world0 [py ''A'', py ''B'']))
        = Inr (Some [py ''A/nB''])"
    unfolding w read_sync_queries_def
    by (rule read_sync_A_B) (simp_all add: fs_lists_def fs0_def path_sync_query_env0, simp_all add: py_def)
  have s: "set [py ''A/nB''] \<inter> set [py ''A'', py ''B''] = {}" by (simp add: py_def)
  show ?thesis using r s by (simp add: w)
qed

lemma write_sync_nothing:
  "\<not> exists fsa path \<Longrightarrow> write_sync path fsa [] create = (Inr (), fsa)"
  by (simp add: write_sync_def)

lemma write_sync_parent_created:
  assumes "write_sync path fsa names True = (r, fsb)" "write_calls fsb \<noteq> write_calls fsa"
  shows "isdir fsb (dirname path)"
  using assms
  by (auto simp: write_sync_def isdir_def makedirs_def open_w_def handle_write_def Let_def
      split: if_splits sum.splits)

text \<open>
  Claim C4 (otherwise the writer creates the missing parent directories and overwrites
  the file with one name per line), evaluated at the two names A and B with no file
  and no \<open>lists\<close> directory: the directory is created and the file overwritten, but
  it holds the single line \<open>A/nB\<close>, not the two lines A and B.
\<close>

theorem write_sync_two_names_one_line:
  "fst (write_sync_playlists env0 world0 [py ''A'', py ''B'']) = Inr ()
   \<and> isdir (fs (snd (write_sync_playlists env0 world0 [py ''A'', py ''B''])))
        (dirname (path_sync_playlists env0))
   \<and> files (fs (snd (write_sync_playlists env0 world0 [py ''A'', py ''B''])))
        (path_sync_playlists env0) = Some (map of_char ''A/nB'')
   \<and> decode_utf8 (map of_char ''A/nB'') = Some (py ''A/nB'')
   \<and> readlines (py ''A/nB'') = [py ''A/nB'']
   \<and> [py ''A/nB''] \<noteq> [py ''A'', py ''B'']"
proof -
  have w: "write_sync_playlists env0 world0 [py ''A'', py ''B'']
      = (Inr (), world0\<lparr>fs := fs_lists\<lparr>files := [path_sync_playlists env0 \<mapsto> map of_char ''A/nB''],
           write_calls := [(path_sync_playlists env0, map of_char ''A/nB'')]\<rparr>\<rparr>)"
    by (simp add: write_sync_playlists_def path_sync_playlists_env0 write_sync_A_B world0_def)
  have d: "isdir (fs_lists\<lparr>files := [path_sync_playlists env0 \<mapsto> map of_char ''A/nB''],
           write_calls := [(path_sync_playlists env0, map of_char ''A/nB'')]\<rparr>)
        (dirname (path_sync_playlists env0))"
    by (simp add: isdir_def path_sync_playlists_env0 dirname_sync_playlists fs_lists_def)
  have l: "readlines (py ''A/nB'') = [py ''A/nB'']" by (simp add: readlines_def py_def)
  show ?thesis using d l decode_A_n_B by (simp add: w)
qed


lemma read_sync_no_OSError: "read_sync path fsa \<noteq> Inl OSError"
  by (simp add: read_sync_def split: sum.splits)

lemma read_sync_io_error:
  "exists fsa path \<Longrightarrow> open_r fsa path = Inl OSError \<Longrightarrow> read_sync path fsa = Inr None"
  by (simp add: read_sync_def read_text_def)

lemma get_queries_world_denied: "get_queries env0 world_denied = Inr []"
  by (simp add: get_queries_def world_denied_def world_A_def exists_def path_query_env0
        path_sync_query_env0 fs_lists_def fs0_def)
     (simp add: py_def)

text \<open>
  Claim C5 (an I/O error on reading is treated as an empty list), evaluated where
  \<open>queries.sync\<close> exists and the operating system refuses to open it: the reader
  returns \<open>None\<close>, not the empty list, so that building the panel ends in a
  \<open>TypeError\<close> and switching a check button on in an \<open>AttributeError\<close>.
\<close>

theorem read_sync_io_error_is_None:
  "exists (fs world_denied) (path_sync_query env0)
   \<and> open_r (fs world_denied) (path_sync_query env0) = Inl OSError
   \<and> read_sync_queries env0 world_denied = Inr None
   \<and> PluginPreferences env0 world_denied = (Inl TypeError, world_denied)
   \<and> toggle_save_query env0 world_denied True (py ''A'') = (Inl AttributeError, world_denied)"
proof -
  have e: "exists (fs world_denied) (path_sync_query env0)"
    by (simp add: exists_def world_denied_def world_A_def)
  have o: "open_r (fs world_denied) (path_sync_query env0) = Inl OSError"
    by (simp add: open_r_def world_denied_def)
  have r: "read_sync_queries env0 world_denied = Inr None"
    unfolding read_sync_queries_def using e o by (rule read_sync_io_error)
  have p: "PluginPreferences env0 world_denied = (Inl TypeError, world_denied)"
    by (simp add: PluginPreferences_def get_queries_world_denied r intersection_list_def)
  have t: "toggle_save_query env0 world_denied True (py ''A'') = (Inl AttributeError, world_denied)"
    by (simp add: toggle_save_query_def toggle_save_def r append_name_def)
  show ?thesis using e o r p t by simp
qed

text \<open>The evaluation of C5 read off at the refused file: the reader's result and what
  building the panel makes of it.\<close>

theorem read_sync_io_error_is_None_witness:
  "read_sync_queries env0 world_denied = Inr None
   \<and> fst (PluginPreferences env0 world_denied) = Inl TypeError
   \<and> snd (PluginPreferences env0 world_denied) = world_denied"
  using read_sync_io_error_is_None by simp

section \<open>Properties of the toggle handlers and of \<open>_get_queries\<close>\<close>

lemma toggle_save_unchecked:
  "toggle_save reader writer w False name =
     ((case reader w of
         Inl err \<Rightarrow> Inl err
       | Inr None \<Rightarrow> Inl TypeError
       | Inr (Some l) \<Rightarrow> if name \<in> set l then Inl TypeError else Inl KeyError), w)"
  by (simp add: toggle_save_def set_remove_def list_of_None_def split: sum.splits option.splits)

lemma read_sync_queries_world_A: "read_sync_queries env0 world_A = Inr (Some [py ''A''])"
proof -
  have d: "decode_utf8 (map of_char ''A'') = Some (py ''A'')"
    by (simp add: decode_utf8_def py_def)
  have l: "readlines (universal_newlines (py ''A'')) = [py ''A'']"
    by (simp add: readlines_def py_def)
  have "read_sync (path_sync_query env0) (fs world_A)
      = Inr (Some (readlines (universal_newlines (py ''A''))))"
    by (rule read_sync_lines[OF _ _ _ d])
       (simp_all add: world_A_def fs_lists_def fs0_def path_sync_query_env0, simp add: py_def)
  then show ?thesis by (simp add: read_sync_queries_def l)
qed

lemma read_sync_playlists_world_B: "read_sync_playlists env0 world_B = Inr (Some [py ''B''])"
proof -
  have d: "decode_utf8 (map of_char ''B'') = Some (py ''B'')"
    by (simp add: decode_utf8_def py_def)
  have l: "readlines (universal_newlines (py ''B'')) = [py ''B'']"
    by (simp add: readlines_def py_def)
  have "read_sync (path_sync_playlists env0) (fs world_B)
      = Inr (Some (readlines (universal_newlines (py ''B''))))"
    by (rule read_sync_lines[OF _ _ _ d])
       (simp_all add: world_B_def fs_lists_def fs0_def path_sync_playlists_env0, simp add: py_def)
  then show ?thesis by (simp add: read_sync_playlists_def l)
qed

text \<open>
  Claim C9 (after a sync check button is switched off, the list persisted is empty),
  evaluated where \<open>queries.sync\<close> holds the one name A and the button of A is switched
  off, and where \<open>playlists.sync\<close> holds the one name B and the button of B is switched
  off: \<open>set(...).remove(name)\<close> returns \<open>None\<close>, \<open>list(None)\<close> raises \<open>TypeError\<close>,
  and the handler (\<open>_toggle_save_query\<close>, \<open>_toggle_save_playlist\<close>) ends before it
  reaches \<open>write_sync_*\<close>. Nothing is persisted: the world is as before and the list
  read back afterwards still holds the name.
\<close>

theorem toggle_unchecked_persists_nothing:
  "read_sync_queries env0 world_A = Inr (Some [py ''A''])
   \<and> toggle_save_query env0 world_A False (py ''A'') = (Inl TypeError, world_A)
   \<and> read_sync_queries env0 (snd (toggle_save_query env0 world_A False (py ''A'')))
        = Inr (Some [py ''A''])
   \<and> read_sync_playlists env0 world_B = Inr (Some [py ''B''])
   \<and> toggle_save_playlist env0 world_B False (py ''B'') = (Inl TypeError, world_B)
   \<and> read_sync_playlists env0 (snd (toggle_save_playlist env0 world_B False (py ''B'')))
        = Inr (Some [py ''B''])"
proof -
  have q: "toggle_save_query env0 world_A False (py ''A'') = (Inl TypeError, world_A)"
    by (simp add: toggle_save_query_def toggle_save_unchecked read_sync_queries_world_A)
  have p: "toggle_save_playlist env0 world_B False (py ''B'') = (Inl TypeError, world_B)"
    by (simp add: toggle_save_playlist_def toggle_save_unchecked read_sync_playlists_world_B)
  show ?thesis
    by (simp add: q p read_sync_queries_world_A read_sync_playlists_world_B)
qed

lemma get_queries_loop_odd:
  "odd (length ls) \<Longrightarrow> get_queries_loop ls qs = Inl StopIteration"
  by (induction ls qs rule: get_queries_loop.induct) simp_all

lemma get_queries_loop_even:
  "even (length ls) \<Longrightarrow>
     get_queries_loop ls qs
       = Inr (foldl (\<lambda>acc p. AList.update (fst (entry_of p)) (snd (entry_of p)) acc) qs (line_pairs ls))"
  by (induction ls qs rule: get_queries_loop.induct) (simp_all add: entry_of_def)

lemma foldl_update_keys:
  "fst ` set (foldl (\<lambda>acc p. AList.update (fst (f p)) (snd (f p)) acc) qs ps)
     = fst ` set qs \<union> (fst \<circ> f) ` set ps"
  by (induction ps arbitrary: qs) (auto simp: dom_update)

lemma foldl_update_distinct:
  "distinct (map fst qs)
   \<Longrightarrow> distinct (map fst (foldl (\<lambda>acc p. AList.update (fst (f p)) (snd (f p)) acc) qs ps))"
  by (induction ps arbitrary: qs) (simp_all add: distinct_update)

lemma foldl_update_map_of:
  "map_of (foldl (\<lambda>acc p. AList.update (fst (f p)) (snd (f p)) acc) qs ps)
     = map_of qs ++ map_of (rev (map f ps))"
proof (induction ps arbitrary: qs)
  case Nil
  then show ?case by simp
next
  case (Cons p ps)
  have "map_of (AList.update (fst (f p)) (snd (f p)) qs) ++ map_of (rev (map f ps))
      = map_of qs ++ map_of (rev (map f ps) @ [f p])"
    by (simp add: update_conv')
  then show ?case using Cons.IH[of "AList.update (fst (f p)) (snd (f p)) qs"] by simp
qed

lemma update_fresh: "k \<notin> fst ` set al \<Longrightarrow> AList.update k v al = al @ [(k, v)]"
  by (induction al) auto

lemma foldl_update_fresh:
  "distinct (map (fst \<circ> f) ps) \<Longrightarrow> fst ` set qs \<inter> (fst \<circ> f) ` set ps = {}
   \<Longrightarrow> foldl (\<lambda>acc p. AList.update (fst (f p)) (snd (f p)) acc) qs ps = qs @ map f ps"
proof (induction ps arbitrary: qs)
  case Nil
  then show ?case by simp
next
  case (Cons p ps)
  have fresh: "fst (f p) \<notin> fst ` set qs" using Cons.prems(2) by auto
  then have u: "AList.update (fst (f p)) (snd (f p)) qs = qs @ [f p]"
    by (simp add: update_fresh)
  have "fst ` set (qs @ [f p]) \<inter> (fst \<circ> f) ` set ps = {}"
    using Cons.prems by auto
  then have "foldl (\<lambda>acc p. AList.update (fst (f p)) (snd (f p)) acc) (qs @ [f p]) ps
      = (qs @ [f p]) @ map f ps"
    using Cons.prems(1) by (intro Cons.IH) simp_all
  then show ?case using u by simp
qed

lemma get_queries_reads:
  assumes "exists (fs w) (path_query e)" "read_text (fs w) (path_query e) = Inr t"
  shows "get_queries e w = get_queries_loop (readlines t) []"
  using assms by (simp add: get_queries_def)

text \<open>
  Claim C10, as amended. For an existing saved-search file that can be read: when the
  number of its lines is odd, \<open>_get_queries\<close> raises \<open>StopIteration\<close>; when it is
  even, \<open>_get_queries\<close> returns a mapping whose keys are exactly the stripped name
  lines, each key holding the query of the last pair with that name. When the stripped
  names are pairwise distinct this is one entry per pair, in the order of the file.
\<close>

theorem get_queries_pairs:
  assumes ex: "exists (fs w) (path_query e)"
    and rd: "read_text (fs w) (path_query e) = Inr t"
  shows "(odd (length (readlines t)) \<longrightarrow> get_queries e w = Inl StopIteration)
     \<and> (even (length (readlines t)) \<longrightarrow>
          (\<exists>qs. get_queries e w = Inr qs
             \<and> distinct (map fst qs)
             \<and> fst ` set qs = (\<lambda>p. strip (snd p)) ` set (line_pairs (readlines t))
             \<and> map_of qs = map_of (rev (map entry_of (line_pairs (readlines t))))
             \<and> (distinct (map (\<lambda>p. strip (snd p)) (line_pairs (readlines t)))
                  \<longrightarrow> qs = map entry_of (line_pairs (readlines t)))))"
proof (intro conjI impI)
  assume "odd (length (readlines t))"
  then show "get_queries e w = Inl StopIteration"
    using get_queries_reads[OF ex rd] by (simp add: get_queries_loop_odd)
next
  let ?ps = "line_pairs (readlines t)"
  let ?qs = "foldl (\<lambda>acc p. AList.update (fst (entry_of p)) (snd (entry_of p)) acc) [] ?ps"
  assume "even (length (readlines t))"
  then have g: "get_queries e w = Inr ?qs"
    using get_queries_reads[OF ex rd] by (simp add: get_queries_loop_even)
  have k: "fst \<circ> entry_of = (\<lambda>p. strip (snd p))"
    by (simp add: fun_eq_iff entry_of_def)
  have d: "distinct (map fst ?qs)" by (rule foldl_update_distinct) simp
  have s: "fst ` set ?qs = (\<lambda>p. strip (snd p)) ` set ?ps"
    using foldl_update_keys[of entry_of "[]" ?ps] by (simp add: k)
  have m: "map_of ?qs = map_of (rev (map entry_of ?ps))"
    using foldl_update_map_of[of entry_of "[]" ?ps] by simp
  have f: "distinct (map (\<lambda>p. strip (snd p)) ?ps) \<longrightarrow> ?qs = map entry_of ?ps"
    using foldl_update_fresh[of entry_of ?ps "[]"] by (simp add: k)
  show "\<exists>qs. get_queries e w = Inr qs
             \<and> distinct (map fst qs)
             \<and> fst ` set qs = (\<lambda>p. strip (snd p)) ` set ?ps
             \<and> map_of qs = map_of (rev (map entry_of ?ps))
             \<and> (distinct (map (\<lambda>p. strip (snd p)) ?ps) \<longrightarrow> qs = map entry_of ?ps)"
    using g d s m f by blast
qed

lemma read_text_steps:
  "open_r fsa p = Inr b \<Longrightarrow> decode_utf8 b = Some t \<Longrightarrow> universal_newlines t = t'
   \<Longrightarrow> read_text fsa p = Inr t'"
  by (simp add: read_text_def)

lemma read_text_world_dup:
  "read_text (fs world_dup) (path_query env0)
     = Inr (py ''q1\<newline>A\<newline>q2\<newline>A\<newline>'')"
proof -
  have d: "decode_utf8 (map of_char ''q1\<newline>A\<newline>q2\<newline>A\<newline>'')
      = Some (py ''q1\<newline>A\<newline>q2\<newline>A\<newline>'')"
    by (simp add: decode_utf8_def py_def)
  have o: "open_r (fs world_dup) (path_query env0)
      = Inr (map of_char ''q1\<newline>A\<newline>q2\<newline>A\<newline>'')"
    by (simp add: open_r_def world_dup_def fs_lists_def fs0_def path_query_env0) (simp add: py_def)
  have u: "universal_newlines (py ''q1\<newline>A\<newline>q2\<newline>A\<newline>'')
      = py ''q1\<newline>A\<newline>q2\<newline>A\<newline>''"
    by (simp add: py_def)
  show ?thesis by (rule read_text_steps[OF o d u])
qed

lemma read_text_world_odd:
  "read_text (fs world_odd) (path_query env0) = Inr (py ''q1\<newline>A\<newline>q2\<newline>'')"
proof -
  have d: "decode_utf8 (map of_char ''q1\<newline>A\<newline>q2\<newline>'')
      = Some (py ''q1\<newline>A\<newline>q2\<newline>'')"
    by (simp add: decode_utf8_def py_def)
  have o: "open_r (fs world_odd) (path_query env0)
      = Inr (map of_char ''q1\<newline>A\<newline>q2\<newline>'')"
    by (simp add: open_r_def world_odd_def fs_lists_def fs0_def path_query_env0) (simp add: py_def)
  have u: "universal_newlines (py ''q1\<newline>A\<newline>q2\<newline>'') = py ''q1\<newline>A\<newline>q2\<newline>''"
    by (simp add: py_def)
  show ?thesis by (rule read_text_steps[OF o d u])
qed

lemma readlines_dup:
  "readlines (py ''q1\<newline>A\<newline>q2\<newline>A\<newline>'')
     = [py ''q1\<newline>'', py ''A\<newline>'', py ''q2\<newline>'', py ''A\<newline>'']"
  by (simp add: readlines_def py_def)

lemma readlines_odd:
  "readlines (py ''q1\<newline>A\<newline>q2\<newline>'') = [py ''q1\<newline>'', py ''A\<newline>'', py ''q2\<newline>'']"
  by (simp add: readlines_def py_def)

lemma strip_samples:
  "strip (py ''q1\<newline>'') = py ''q1''" "strip (py ''q2\<newline>'') = py ''q2''"
  "strip (py ''A\<newline>'') = py ''A''"
  by (simp_all add: strip_def py_def isspace_def)

lemma exists_world_dup: "exists (fs world_dup) (path_query env0)"
  by (simp add: exists_def world_dup_def)

lemma exists_world_odd: "exists (fs world_odd) (path_query env0)"
  by (simp add: exists_def world_odd_def)

text \<open>The theorem of C10 at a file of three lines and at a file of four.\<close>

theorem get_queries_pairs_witness:
  "exists (fs world_odd) (path_query env0)
   \<and> read_text (fs world_odd) (path_query env0) = Inr (py ''q1\<newline>A\<newline>q2\<newline>'')
   \<and> odd (length (readlines (py ''q1\<newline>A\<newline>q2\<newline>'')))
   \<and> get_queries env0 world_odd = Inl StopIteration
   \<and> exists (fs world_dup) (path_query env0)
   \<and> read_text (fs world_dup) (path_query env0) = Inr (py ''q1\<newline>A\<newline>q2\<newline>A\<newline>'')
   \<and> even (length (readlines (py ''q1\<newline>A\<newline>q2\<newline>A\<newline>'')))
   \<and> (\<exists>qs. get_queries env0 world_dup = Inr qs \<and> map_of qs (py ''A'') = Some (Query (py ''q2'')))"
proof -
  have o: "odd (length (readlines (py ''q1\<newline>A\<newline>q2\<newline>'')))" by (simp add: readlines_odd)
  have e: "even (length (readlines (py ''q1\<newline>A\<newline>q2\<newline>A\<newline>'')))" by (simp add: readlines_dup)
  from get_queries_pairs[OF exists_world_odd read_text_world_odd] o
  have 1: "get_queries env0 world_odd = Inl StopIteration" by blast
  from get_queries_pairs[OF exists_world_dup read_text_world_dup] e
  obtain qs where qs: "get_queries env0 world_dup = Inr qs"
    "map_of qs = map_of (rev (map entry_of (line_pairs (readlines (py ''q1\<newline>A\<newline>q2\<newline>A\<newline>'')))))"
    by blast
  from qs(2) have "map_of qs (py ''A'') = Some (Query (py ''q2''))"
    by (simp add: readlines_dup entry_of_def strip_samples)
  with qs(1) have 2: "\<exists>qs. get_queries env0 world_dup = Inr qs
      \<and> map_of qs (py ''A'') = Some (Query (py ''q2''))" by blast
  show ?thesis
    using 1 2 o e exists_world_odd read_text_world_odd exists_world_dup read_text_world_dup
    by simp
qed

text \<open>
  Claim C10 as stated (one entry per pair) fails where two pairs carry the same name:
  the file \<open>q1\nA\nq2\nA\n\<close> has two pairs and gives the one entry A, with \<open>q2\<close>.
\<close>

theorem get_queries_duplicate_name_counterexample:
  "exists (fs world_dup) (path_query env0)
   \<and> read_text (fs world_dup) (path_query env0) = Inr (py ''q1\<newline>A\<newline>q2\<newline>A\<newline>'')
   \<and> line_pairs (readlines (py ''q1\<newline>A\<newline>q2\<newline>A\<newline>''))
        = [(py ''q1\<newline>'', py ''A\<newline>''), (py ''q2\<newline>'', py ''A\<newline>'')]
   \<and> get_queries env0 world_dup = Inr [(py ''A'', Query (py ''q2''))]
   \<and> length [(py ''A'', Query (py ''q2''))]
        \<noteq> length [(py ''q1\<newline>'', py ''A\<newline>''), (py ''q2\<newline>'', py ''A\<newline>'')]"
proof -
  have g: "get_queries env0 world_dup = Inr [(py ''A'', Query (py ''q2''))]"
    using get_queries_reads[OF exists_world_dup read_text_world_dup]
    by (simp add: readlines_dup strip_samples)
  show ?thesis
    using g exists_world_dup read_text_world_dup by (simp add: readlines_dup)
qed

section \<open>The files an export writes\<close>




















section \<open>Properties of \<open>_run_export\<close>\<close>

text \<open>
  Claim C7, as amended. When the destination path is empty or not absolute,
  \<open>_run_export\<close> returns normally (no exception reaches the caller) after one titled
  error dialog, and the file system is as before: nothing was resolved or written.
  What the run does change are the three configuration values, stored before the
  inputs are checked, and the title printed by \<open>print_e\<close>.
\<close>

theorem run_export_invalid_destination:
  assumes "destination_entry self = [] \<or> \<not> isabs (destination_entry self)"
  shows "\<exists>title message.
      run_export e self w =
        (Inr (), w\<lparr>config := (config w)(CONFIG_PATH_KEY \<mapsto> tmp_export_path self,
                                        CONFIG_REMOVE_ROOT_KEY \<mapsto> tmp_remove_root self,
                                        CONFIG_NEW_ROOT_KEY \<mapsto> tmp_new_root self),
                    dialogs := dialogs w @ [(title, message)],
                    printed := printed w @ [title]\<rparr>)
      \<and> title = (if destination_entry self = [] then py ''No destination path provided''
                  else py ''Export path is not absolute'')
      \<and> fs (snd (run_export e self w)) = fs w"
  using assms
  by (auto simp: run_export_def check_valid_inputs_def config_set_def show_export_error_def Let_def)

text \<open>The theorem of C7 at the relative destination \<open>./path\<close>.\<close>

theorem run_export_invalid_destination_witness:
  "\<not> isabs (destination_entry plugin_relative)
   \<and> fst (run_export env0 plugin_relative world0) = Inr ()
   \<and> fs (snd (run_export env0 plugin_relative world0)) = fs world0
   \<and> map fst (dialogs (snd (run_export env0 plugin_relative world0)))
        = [py ''Export path is not absolute'']"
proof -
  have h: "\<not> isabs (destination_entry plugin_relative)"
    by (simp add: plugin_relative_def isabs_def py_def)
  have n: "destination_entry plugin_relative \<noteq> []"
    by (simp add: plugin_relative_def py_def)
  from h have "destination_entry plugin_relative = [] \<or> \<not> isabs (destination_entry plugin_relative)"
    by simp
  from run_export_invalid_destination[OF this, of env0 world0] n h
  show ?thesis by (auto simp: world0_def)
qed

text \<open>
  Claim C7 as stated (no side effects are performed) fails: with an empty destination
  and \<open>/music\<close> typed in as the root to remove, the run stores that root in the
  configuration, which held no value for it before.
\<close>

theorem run_export_sets_config_counterexample:
  "destination_entry plugin_no_dest = []
   \<and> fst (run_export env0 plugin_no_dest world0) = Inr ()
   \<and> config world0 CONFIG_REMOVE_ROOT_KEY = None
   \<and> config (snd (run_export env0 plugin_no_dest world0)) CONFIG_REMOVE_ROOT_KEY
        = Some (py ''/music'')"
  by (simp add: run_export_def check_valid_inputs_def config_set_def show_export_error_def
      Let_def plugin_no_dest_def world0_def CONFIG_REMOVE_ROOT_KEY_def CONFIG_NEW_ROOT_KEY_def
      py_def)

section \<open>The re-save of a sync list returns\<close>










section \<open>What an export has exported\<close>












section \<open>Reconciliation of the sync lists\<close>







































end
